theory Spec2Isabelle
  imports Complex_Main
begin

section \<open>Values shared by the route handlers\<close>

text \<open>
  The server is an Express application over a PostgreSQL store. The login, two-factor and
  API-key handlers only test the fields of the request body for truthiness and pass them
  on to a library or the store; they are modelled on bodies whose fields are strings: a
  field is an optional string, \<open>None\<close> for an absent (or null) field. The
  registration handler reads a property of the password itself and is modelled on
  arbitrary JSON values. Identifiers are the UUIDs the store generates, timestamps are
  seconds.
\<close>

type_synonym uuid = nat
type_synonym timestamp = int
type_synonym field = "string option"

definition truthy :: "field \<Rightarrow> bool" where
  "truthy v = (case v of None \<Rightarrow> False | Some s \<Rightarrow> s \<noteq> [])"

definition str :: "field \<Rightarrow> string" where
  "str v = (case v of None \<Rightarrow> [] | Some s \<Rightarrow> s)"

subsection \<open>The tables (init-db.sql)\<close>

record user =
  u_id :: uuid
  username :: string
  email :: string
  password_hash :: string
  totp_secret :: "string option"
  totp_temp_secret :: "string option"
  is_active :: bool
  is_admin :: bool
  created_at :: timestamp
  updated_at :: timestamp
  last_login :: "timestamp option"

record api_key =
  k_id :: uuid
  k_user_id :: uuid
  name :: string
  key_hash :: string
  permissions :: "string list option"
  last_used_at :: "timestamp option"
  expires_at :: "timestamp option"
  k_is_active :: bool
  k_created_at :: timestamp

record audit_log =
  a_user_id :: uuid
  action :: string
  resource_type :: string
  resource_id :: uuid
  ip_address :: string

record db =
  users :: "user list"
  api_keys :: "api_key list"
  audit_logs :: "audit_log list"

text \<open>
  The columns \<open>id\<close>, \<open>user_id\<close>, \<open>is_active\<close> and \<open>created_at\<close> occur in
  several tables; the fields of \<open>api_keys\<close> and \<open>audit_logs\<close> carry a prefix. A
  table is the list of its rows in insertion order. A query returns: what a handler's
  catch block does when the connection fails is not modelled, what it does when the
  handler itself raises or an INSERT violates a declared constraint is.

  Trigger \<open>update_users_updated_at\<close>: every UPDATE of a users row sets its
  \<open>updated_at\<close> to the current time.
\<close>

text \<open>
  Storing a string into a \<open>VARCHAR(n)\<close> column: a longer string is an error, unless
  the excess characters are all spaces, in which case it is truncated to \<open>n\<close>. A
  string is the list of its characters. A text parameter that holds the character NUL
  makes the query fail.
\<close>

definition varchar :: "nat \<Rightarrow> string \<Rightarrow> string option" where
  "varchar n s = (if list_all (\<lambda>c. c = CHR '' '') (drop n s) then Some (take n s) else None)"

definition has_nul :: "string \<Rightarrow> bool" where
  "has_nul s = (CHR 0x00 \<in> set s)"

definition update_updated_at_column :: "timestamp \<Rightarrow> user \<Rightarrow> user" where
  "update_updated_at_column now u = u\<lparr>updated_at := now\<rparr>"

text \<open>\<open>UPDATE users SET ... WHERE id = $n\<close>: the assignment \<open>f\<close> on the rows with that id.\<close>

definition update_user :: "timestamp \<Rightarrow> uuid \<Rightarrow> (user \<Rightarrow> user) \<Rightarrow> db \<Rightarrow> db" where
  "update_user now i f d =
     d\<lparr>users := map (\<lambda>u. if u_id u = i then update_updated_at_column now (f u) else u) (users d)\<rparr>"

text \<open>\<open>INSERT INTO audit_logs (user_id, action, resource_type, resource_id, ip_address)\<close>.\<close>

definition log_action :: "uuid \<Rightarrow> string \<Rightarrow> string \<Rightarrow> uuid \<Rightarrow> string \<Rightarrow> db \<Rightarrow> db" where
  "log_action who act rtype rid ip d =
     d\<lparr>audit_logs := audit_logs d @
        [\<lparr>a_user_id = who, action = act, resource_type = rtype, resource_id = rid, ip_address = ip\<rparr>]\<rparr>"

subsection \<open>Responses\<close>

record profile =
  p_id :: uuid
  p_username :: string
  p_email :: string
  has2FA :: bool

record api_key_row =
  r_id :: uuid
  r_name :: string
  r_permissions :: "string list option"
  r_last_used_at :: "timestamp option"
  r_expires_at :: "timestamp option"
  r_is_active :: bool
  r_created_at :: timestamp

datatype body =
    Error string
  | Message string
  | Require2FA
  | LoginOk string profile
  | Registered string uuid string string timestamp
  | Setup2FA string string string
  | ApiKeyCreated api_key_row string string
  | ApiKeyList "api_key_row list"

datatype response = Response nat body

fun status :: "response \<Rightarrow> nat" where
  "status (Response s b) = s"

fun token_of :: "response \<Rightarrow> string option" where
  "token_of (Response s (LoginOk t p)) = Some t"
| "token_of (Response s (Registered t i n e c)) = Some t"
| "token_of (Response s b) = None"

subsection \<open>JSON values\<close>

text \<open>
  \<open>express.json()\<close> hands a handler whatever JSON values the request body holds; a
  property the body does not have is \<open>undefined\<close>, here \<open>None\<close>. A number is the
  value \<open>JSON.parse\<close> yields (a literal too large for a double yields an infinity,
  which the registration handler treats as it treats any number of that sign). A string
  is the list of its UTF-16 code units, which is what \<open>.length\<close> counts. In an object
  a later binding of a key overrides an earlier one.
\<close>

datatype json =
    JNull
  | JBool bool
  | JNumber real
  | JString string
  | JArray "json list"
  | JObject "(string \<times> json) list"

text \<open>\<open>!v\<close> is false exactly for these.\<close>

fun js_truthy :: "json option \<Rightarrow> bool" where
  "js_truthy None = False"
| "js_truthy (Some JNull) = False"
| "js_truthy (Some (JBool b)) = b"
| "js_truthy (Some (JNumber x)) = (x \<noteq> 0)"
| "js_truthy (Some (JString s)) = (s \<noteq> [])"
| "js_truthy (Some (JArray xs)) = True"
| "js_truthy (Some (JObject kvs)) = True"

text \<open>
  \<open>v.length\<close> for a truthy \<open>v\<close>: strings and arrays have a length, an object has
  the property if the body gave it one, a number or a boolean has none (\<open>undefined\<close>).
\<close>

fun js_length :: "json \<Rightarrow> json option" where
  "js_length (JString s) = Some (JNumber (real (length s)))"
| "js_length (JArray xs) = Some (JNumber (real (length xs)))"
| "js_length (JObject kvs) = map_of (rev kvs) ''length''"
| "js_length v = None"

text \<open>
  \<open>x < 8\<close>: \<open>undefined\<close> converts to NaN and the comparison is false; \<open>null\<close> and
  the booleans convert to 0 and 1; what a string, an array or an object converts to is
  the language's business, the parameter \<open>coerced\<close>.
\<close>

fun js_less_than_8 :: "(json \<Rightarrow> bool) \<Rightarrow> json option \<Rightarrow> bool" where
  "js_less_than_8 coerced None = False"
| "js_less_than_8 coerced (Some (JNumber x)) = (x < 8)"
| "js_less_than_8 coerced (Some JNull) = True"
| "js_less_than_8 coerced (Some (JBool b)) = True"
| "js_less_than_8 coerced (Some v) = coerced v"

text \<open>The value of a property that has passed the truthiness guard.\<close>

definition val :: "json option \<Rightarrow> json" where
  "val v = (case v of None \<Rightarrow> JNull | Some x \<Rightarrow> x)"

subsection \<open>The libraries the handlers call\<close>

text \<open>
  bcryptjs, jsonwebtoken, speakeasy and pg are third-party packages. The handlers are
  parametrised by what the calls they make return: \<open>bcrypt_compare\<close>;
  \<open>bcrypt_hash\<close> (the value to hash and the salt rounds; \<open>None\<close> when the call
  rejects); \<open>jwt_sign\<close> (payload \<open>userId\<close>, \<open>username\<close>, and the
  \<open>expiresIn\<close> option; the key is the server's JWT\_SECRET); \<open>totp_verify\<close>
  (secret, token and window, at the time of the request); \<open>prepareValue\<close> (the text
  pg sends for a query parameter that is not a string); and \<open>less_than_8\<close> (the
  language's \<open>v < 8\<close> for a string, an array or an object \<open>v\<close>).
\<close>

record libs =
  bcrypt_compare :: "string \<Rightarrow> string \<Rightarrow> bool"
  bcrypt_hash :: "json \<Rightarrow> nat \<Rightarrow> string option"
  jwt_sign :: "uuid \<Rightarrow> string \<Rightarrow> string \<Rightarrow> string"
  totp_verify :: "string \<Rightarrow> string \<Rightarrow> nat \<Rightarrow> bool"
  prepareValue :: "json \<Rightarrow> string"
  less_than_8 :: "json \<Rightarrow> bool"

text \<open>A string parameter is sent as it is.\<close>

definition pg_text :: "libs \<Rightarrow> json \<Rightarrow> string" where
  "pg_text L v = (case v of JString s \<Rightarrow> s | _ \<Rightarrow> prepareValue L v)"

section \<open>routes/auth.js\<close>

subsection \<open>POST /login\<close>

record login_body =
  l_email :: field
  l_password :: field
  l_totp :: field

definition issue_login :: "libs \<Rightarrow> timestamp \<Rightarrow> db \<Rightarrow> user \<Rightarrow> response \<times> db" where
  "issue_login L now d user =
     (Response 200
        (LoginOk (jwt_sign L (u_id user) (username user) ''24h'')
           \<lparr>p_id = u_id user, p_username = username user, p_email = email user,
            has2FA = truthy (totp_secret user)\<rparr>),
      update_user now (u_id user) (\<lambda>u. u\<lparr>last_login := Some now\<rparr>) d)"

definition login :: "libs \<Rightarrow> timestamp \<Rightarrow> db \<Rightarrow> login_body \<Rightarrow> response \<times> db" where
  "login L now d req =
     (if \<not> truthy (l_email req) \<or> \<not> truthy (l_password req)
      then (Response 400 (Error ''Email and password are required''), d)
      else
        (case filter (\<lambda>u. email u = str (l_email req)) (users d) of
           [] \<Rightarrow> (Response 401 (Error ''Invalid credentials''), d)
         | user # rest \<Rightarrow>
             if \<not> bcrypt_compare L (str (l_password req)) (password_hash user)
             then (Response 401 (Error ''Invalid credentials''), d)
             else if truthy (totp_secret user)
             then
               (if \<not> truthy (l_totp req) then (Response 200 Require2FA, d)
                else if \<not> totp_verify L (str (totp_secret user)) (str (l_totp req)) 1
                then (Response 401 (Error ''Invalid 2FA code''), d)
                else issue_login L now d user)
             else issue_login L now d user))"

subsection \<open>POST /register\<close>

record register_body =
  r_username :: "json option"
  r_email :: "json option"
  r_password :: "json option"

text \<open>
  The handler's result is the response, the store, and the values it has passed to
  \<open>bcrypt.hash\<close>. A rejected \<open>bcrypt.hash\<close> and a failed query are answered by the
  catch block with 500. The INSERT fails when a value does not fit its column
  (\<open>username VARCHAR(50)\<close>, \<open>email VARCHAR(255)\<close>), when the stored username or
  email is taken (UNIQUE) or when the generated id is taken; a bcrypt hash is 60
  characters and fits its column. \<open>new_id\<close> is what \<open>uuid_generate_v4()\<close>
  returns. The response and the token carry the row the INSERT returns.
\<close>

definition register ::
  "libs \<Rightarrow> timestamp \<Rightarrow> uuid \<Rightarrow> db \<Rightarrow> register_body \<Rightarrow> response \<times> db \<times> json list" where
  "register L now new_id d req =
     (if \<not> js_truthy (r_username req) \<or> \<not> js_truthy (r_email req) \<or>
         \<not> js_truthy (r_password req)
      then (Response 400 (Error ''All fields are required''), d, [])
      else if js_less_than_8 (less_than_8 L) (js_length (val (r_password req)))
      then (Response 400 (Error ''Password must be at least 8 characters long''), d, [])
      else
        (let email_text = pg_text L (val (r_email req));
             username_text = pg_text L (val (r_username req))
         in
           if has_nul email_text \<or> has_nul username_text
           then (Response 500 (Error ''Internal server error''), d, [])
           else if filter (\<lambda>u. email u = email_text \<or> username u = username_text) (users d) \<noteq> []
           then (Response 400 (Error ''User already exists''), d, [])
           else
             (let saltRounds = 12 in
                case bcrypt_hash L (val (r_password req)) saltRounds of
                  None \<Rightarrow> (Response 500 (Error ''Internal server error''), d, [val (r_password req)])
                | Some hashedPassword \<Rightarrow>
                    (case (varchar 50 username_text, varchar 255 email_text) of
                       (Some stored_username, Some stored_email) \<Rightarrow>
                         if new_id \<in> set (map u_id (users d)) \<or>
                            stored_username \<in> set (map username (users d)) \<or>
                            stored_email \<in> set (map email (users d))
                         then (Response 500 (Error ''Internal server error''), d,
                               [val (r_password req)])
                         else
                           (let user = \<lparr>u_id = new_id, username = stored_username,
                                        email = stored_email, password_hash = hashedPassword,
                                        totp_secret = None, totp_temp_secret = None,
                                        is_active = True, is_admin = False, created_at = now,
                                        updated_at = now, last_login = None\<rparr>
                            in (Response 201
                                  (Registered (jwt_sign L (u_id user) (username user) ''24h'')
                                     (u_id user) (username user) (email user) (created_at user)),
                                d\<lparr>users := users d @ [user]\<rparr>,
                                [val (r_password req)]))
                     | _ \<Rightarrow> (Response 500 (Error ''Internal server error''), d,
                             [val (r_password req)])))))"

subsection \<open>POST /setup-2fa and POST /verify-2fa (after the token check)\<close>

text \<open>
  \<open>base32\<close> and \<open>otpauth_url\<close> are the fields of what
  \<open>speakeasy.generateSecret\<close> returns (20 bytes, 32 base-32 characters, the width
  of the column), \<open>toDataURL\<close> is the QR-code renderer.
\<close>

definition setup_2fa ::
  "timestamp \<Rightarrow> string \<Rightarrow> string \<Rightarrow> (string \<Rightarrow> string) \<Rightarrow> db \<Rightarrow> uuid \<Rightarrow> response \<times> db" where
  "setup_2fa now base32 otpauth_url toDataURL d userId =
     (let qrCodeUrl = toDataURL otpauth_url in
        (Response 200 (Setup2FA base32 qrCodeUrl base32),
         update_user now userId (\<lambda>u. u\<lparr>totp_temp_secret := Some base32\<rparr>) d))"

text \<open>
  With no row for the user, \<open>result.rows[0].totp_temp_secret\<close> raises a TypeError,
  which the catch block answers with 500.
\<close>

definition verify_2fa :: "libs \<Rightarrow> timestamp \<Rightarrow> db \<Rightarrow> uuid \<Rightarrow> field \<Rightarrow> response \<times> db" where
  "verify_2fa L now d userId token =
     (if \<not> truthy token then (Response 400 (Error ''2FA token is required''), d)
      else
        (case filter (\<lambda>u. u_id u = userId) (users d) of
           [] \<Rightarrow> (Response 500 (Error ''Internal server error''), d)
         | row # rest \<Rightarrow>
             if \<not> truthy (totp_temp_secret row)
             then (Response 400 (Error ''No 2FA setup in progress''), d)
             else
               (let tempSecret = str (totp_temp_secret row) in
                  if \<not> totp_verify L tempSecret (str token) 1
                  then (Response 400 (Error ''Invalid 2FA token''), d)
                  else (Response 200 (Message ''2FA activated successfully''),
                        update_user now userId
                          (\<lambda>u. u\<lparr>totp_secret := Some tempSecret, totp_temp_secret := None\<rparr>) d))))"

section \<open>Token verification\<close>

text \<open>
  \<open>jwt.verify\<close> either decodes the payload or fails with an error whose name is one
  of jsonwebtoken's three. It is a parameter: a function of the token (the key and the
  clock are the server's).
\<close>

datatype jwt_error = TokenExpiredError | JsonWebTokenError | NotBeforeError

record jwt_user =
  j_userId :: uuid
  j_username :: string

type_synonym jwt_verify = "string \<Rightarrow> jwt_error + jwt_user"

datatype auth = Next jwt_user | Reply response

text \<open>JavaScript's \<open>s.split(c)\<close> for a one-character separator.\<close>

fun split :: "char \<Rightarrow> string \<Rightarrow> string list" where
  "split c [] = [[]]"
| "split c (x # xs) =
     (if x = c then [] # split c xs
      else (case split c xs of [] \<Rightarrow> [[x]] | p # ps \<Rightarrow> (x # p) # ps))"

text \<open>\<open>authHeader && authHeader.split(' ')[1]\<close>; an undefined value is \<open>None\<close>.\<close>

definition bearer :: "field \<Rightarrow> field" where
  "bearer authHeader =
     (case authHeader of
        None \<Rightarrow> None
      | Some h \<Rightarrow> (if h = [] then Some [] else
          (case split CHR '' '' h of a # t # rest \<Rightarrow> Some t | _ \<Rightarrow> None)))"

text \<open>middleware/auth.js, used by routes/users.js and routes/diagrams.js.\<close>

definition authenticateToken :: "jwt_verify \<Rightarrow> field \<Rightarrow> auth" where
  "authenticateToken verify authHeader =
     (let token = bearer authHeader in
        if \<not> truthy token then Reply (Response 401 (Error ''Access token required''))
        else
          (case verify (str token) of
             Inl err \<Rightarrow>
               if err = TokenExpiredError then Reply (Response 401 (Error ''Token expired''))
               else Reply (Response 403 (Error ''Invalid or expired token''))
           | Inr user \<Rightarrow> Next user))"

text \<open>The function of the same name that routes/auth.js declares for its own routes.\<close>

definition authenticateToken_auth :: "jwt_verify \<Rightarrow> field \<Rightarrow> auth" where
  "authenticateToken_auth verify authHeader =
     (let token = bearer authHeader in
        if \<not> truthy token then Reply (Response 401 (Error ''Access token required''))
        else
          (case verify (str token) of
             Inl err \<Rightarrow> Reply (Response 403 (Error ''Invalid or expired token''))
           | Inr user \<Rightarrow> Next user))"

text \<open>The two routes of routes/auth.js behind the token check.\<close>

definition post_setup_2fa ::
  "jwt_verify \<Rightarrow> timestamp \<Rightarrow> string \<Rightarrow> string \<Rightarrow> (string \<Rightarrow> string) \<Rightarrow> db \<Rightarrow> field \<Rightarrow>
     response \<times> db" where
  "post_setup_2fa verify now base32 otpauth_url toDataURL d authHeader =
     (case authenticateToken_auth verify authHeader of
        Reply r \<Rightarrow> (r, d)
      | Next user \<Rightarrow> setup_2fa now base32 otpauth_url toDataURL d (j_userId user))"

definition post_verify_2fa ::
  "jwt_verify \<Rightarrow> libs \<Rightarrow> timestamp \<Rightarrow> db \<Rightarrow> field \<Rightarrow> field \<Rightarrow> response \<times> db" where
  "post_verify_2fa verify L now d authHeader token =
     (case authenticateToken_auth verify authHeader of
        Reply r \<Rightarrow> (r, d)
      | Next user \<Rightarrow> verify_2fa L now d (j_userId user) token)"

section \<open>routes/users.js\<close>

subsection \<open>POST /me/disable-2fa\<close>

definition disable_2fa ::
  "libs \<Rightarrow> timestamp \<Rightarrow> string \<Rightarrow> db \<Rightarrow> uuid \<Rightarrow> field \<Rightarrow> response \<times> db" where
  "disable_2fa L now ip d userId password =
     (if \<not> truthy password
      then (Response 400 (Error ''Password is required to disable 2FA''), d)
      else
        (case filter (\<lambda>u. u_id u = userId) (users d) of
           [] \<Rightarrow> (Response 404 (Error ''User not found''), d)
         | row # rest \<Rightarrow>
             if \<not> bcrypt_compare L (str password) (password_hash row)
             then (Response 401 (Error ''Incorrect password''), d)
             else (Response 200 (Message ''2FA disabled successfully''),
                   log_action userId ''disable_2fa'' ''user'' userId ip
                     (update_user now userId
                        (\<lambda>u. u\<lparr>totp_secret := None, totp_temp_secret := None\<rparr>) d))))"

text \<open>The route behind the token check of middleware/auth.js.\<close>

definition post_disable_2fa ::
  "jwt_verify \<Rightarrow> libs \<Rightarrow> timestamp \<Rightarrow> string \<Rightarrow> db \<Rightarrow> field \<Rightarrow> field \<Rightarrow> response \<times> db" where
  "post_disable_2fa verify L now ip d authHeader password =
     (case authenticateToken verify authHeader of
        Reply r \<Rightarrow> (r, d)
      | Next user \<Rightarrow> disable_2fa L now ip d (j_userId user) password)"

subsection \<open>GET /me/api-keys and POST /me/api-keys (after the token check)\<close>

text \<open>
  The columns both queries return:
  \<open>id, name, permissions, last_used_at, expires_at, is_active, created_at\<close>
  (the RETURNING clause of the INSERT has no \<open>last_used_at\<close>, which is NULL then).
\<close>

definition returning :: "api_key \<Rightarrow> api_key_row" where
  "returning k =
     \<lparr>r_id = k_id k, r_name = name k, r_permissions = permissions k,
      r_last_used_at = last_used_at k, r_expires_at = expires_at k,
      r_is_active = k_is_active k, r_created_at = k_created_at k\<rparr>"

text \<open>\<open>WHERE user_id = $1 ORDER BY created_at DESC\<close>\<close>

definition get_api_keys :: "db \<Rightarrow> uuid \<Rightarrow> response" where
  "get_api_keys d userId =
     Response 200
       (ApiKeyList
          (map returning
             (sort_key (\<lambda>k. - k_created_at k)
                (filter (\<lambda>k. k_user_id k = userId) (api_keys d)))))"

text \<open>\<open>crypto.randomBytes(32).toString('hex')\<close>: two lower-case hex digits a byte.\<close>

definition hex_digit :: "nat \<Rightarrow> char" where
  "hex_digit n = ''0123456789abcdef'' ! (n mod 16)"

definition to_hex :: "nat list \<Rightarrow> string" where
  "to_hex bytes = concat (map (\<lambda>b. [hex_digit (b div 16), hex_digit b]) bytes)"

text \<open>
  The body of the request: \<open>permissions\<close> is absent, null or a list of strings;
  \<open>expiresInDays\<close> is absent (or null) or a number.
\<close>

record api_key_body =
  b_name :: field
  b_permissions :: "string list option option"
  b_expiresInDays :: "real option"

text \<open>
  \<open>randomBytes\<close> is what \<open>crypto.randomBytes(32)\<close> returns and \<open>sha256\<close> is
  \<open>crypto.createHash('sha256').update(_).digest('hex')\<close>. \<open>add_days now n\<close> is
  the timestamp of \<open>new Date()\<close> after \<open>setDate(getDate() + n)\<close>: the same time of
  day \<open>n\<close> calendar days on in the server's time zone, or \<open>None\<close> when that is no
  valid date or none the store accepts. An absent \<open>permissions\<close> defaults to the empty
  list, an explicit null is stored as NULL; \<open>expiresInDays\<close> defaults to null, and 0
  is as good as null. The INSERT fails (500) when the expiry is no timestamp, the name
  does not fit \<open>VARCHAR(100)\<close> or holds NUL, the user is gone (foreign key) or the
  generated id is taken; the digest is 64 characters and fits its column. The response
  carries the row the INSERT returns.
\<close>

definition create_api_key ::
  "(string \<Rightarrow> string) \<Rightarrow> (timestamp \<Rightarrow> real \<Rightarrow> timestamp option) \<Rightarrow> nat list \<Rightarrow> timestamp \<Rightarrow>
     uuid \<Rightarrow> string \<Rightarrow> db \<Rightarrow> uuid \<Rightarrow> api_key_body \<Rightarrow> response \<times> db" where
  "create_api_key sha256 add_days randomBytes now new_id ip d userId req =
     (if \<not> truthy (b_name req) then (Response 400 (Error ''API key name is required''), d)
      else
        (let apiKey = ''ffl_'' @ to_hex randomBytes;
             keyHash = sha256 apiKey;
             expiresAt = (case b_expiresInDays req of
                            None \<Rightarrow> Some None
                          | Some n \<Rightarrow> if n = 0 then Some None
                                     else map_option Some (add_days now n))
         in
           case (expiresAt, varchar 100 (str (b_name req))) of
             (Some expires, Some stored_name) \<Rightarrow>
               if has_nul (str (b_name req)) \<or>
                  filter (\<lambda>u. u_id u = userId) (users d) = [] \<or>
                  new_id \<in> set (map k_id (api_keys d))
               then (Response 500 (Error ''Internal server error''), d)
               else
                 (let row = \<lparr>k_id = new_id, k_user_id = userId, name = stored_name,
                             key_hash = keyHash,
                             permissions = (case b_permissions req of
                                              None \<Rightarrow> Some []
                                            | Some ps \<Rightarrow> ps),
                             last_used_at = None, expires_at = expires, k_is_active = True,
                             k_created_at = now\<rparr>
                  in (Response 201
                        (ApiKeyCreated (returning row) apiKey
                           ''Save this API key securely. It will not be shown again.''),
                      log_action userId ''create_api_key'' ''api_key'' (k_id row) ip
                        (d\<lparr>api_keys := api_keys d @ [row]\<rparr>)))
           | _ \<Rightarrow> (Response 500 (Error ''Internal server error''), d)))"

text \<open>The raw key a response carries, if any.\<close>

fun apiKey_of :: "response \<Rightarrow> string option" where
  "apiKey_of (Response s (ApiKeyCreated r k w)) = Some k"
| "apiKey_of (Response s b) = None"

section \<open>Operations the specification describes over library code\<close>

subsection \<open>TOTP code verification\<close>

text \<open>
  Modelled from the spec: \<open>verifyCode\<close> (section 4.2), which the handlers reach as
  \<open>speakeasy.totp.verify\<close> with \<open>window: 1\<close>; the package is not part of the
  sources. The spec's words: it computes the time-step counter from the current time
  (30-second step) and accepts the submitted code if it matches the HMAC-derived code for
  the current step or any step within \<open>windowSteps\<close> of it; codes of wrong length or
  non-numeric content are rejected. The HMAC-derived number of a secret and a counter is
  the parameter \<open>hmac\<close>; a code is its last six decimal digits.
\<close>

definition time_step :: "timestamp \<Rightarrow> int" where
  "time_step t = t div 30"

definition digit :: "nat \<Rightarrow> char" where
  "digit n = ''0123456789'' ! (n mod 10)"

definition codeAt :: "(string \<Rightarrow> int \<Rightarrow> nat) \<Rightarrow> string \<Rightarrow> int \<Rightarrow> string" where
  "codeAt hmac secret c =
     (let n = hmac secret c mod 1000000
      in map (\<lambda>i. digit (n div 10 ^ i)) [5, 4, 3, 2, 1, 0])"

definition numeric :: "string \<Rightarrow> bool" where
  "numeric code = (length code = 6 \<and> list_all (\<lambda>ch. ch \<in> set ''0123456789'') code)"

definition verifyCode ::
  "(string \<Rightarrow> int \<Rightarrow> nat) \<Rightarrow> timestamp \<Rightarrow> string \<Rightarrow> string \<Rightarrow> nat \<Rightarrow> bool" where
  "verifyCode hmac now secret code windowSteps =
     (numeric code \<and>
      list_ex (\<lambda>c. codeAt hmac secret c = code)
        [time_step now - int windowSteps .. time_step now + int windowSteps])"

subsection \<open>API-key authentication\<close>

text \<open>
  Modelled from the spec: \<open>authenticate(rawKey)\<close> (section 4.4). The sources create,
  list and delete API keys and declare the table with its digest column; the operation
  that authenticates a presented key is not among them. The spec's words: it digests the
  presented value and looks up a matching stored digest; it fails with \<open>NotFound\<close> if
  no match, \<open>Expired\<close> if matched but past \<open>expiresAt\<close>, \<open>Revoked\<close> if matched
  but \<open>isActive=false\<close>, and returns the owning user id otherwise.
\<close>

datatype key_error = NotFound | Expired | Revoked

definition authenticate ::
  "(string \<Rightarrow> string) \<Rightarrow> timestamp \<Rightarrow> db \<Rightarrow> string \<Rightarrow> key_error + uuid" where
  "authenticate sha256 now d rawKey =
     (case filter (\<lambda>k. key_hash k = sha256 rawKey) (api_keys d) of
        [] \<Rightarrow> Inl NotFound
      | k # rest \<Rightarrow>
          if (case expires_at k of None \<Rightarrow> False | Some t \<Rightarrow> t < now) then Inl Expired
          else if \<not> k_is_active k then Inl Revoked
          else Inr (k_user_id k))"

section \<open>A small store for the examples\<close>

text \<open>
  Stand-ins for the libraries (a \<open>bcrypt.hash\<close> that rejects what is not a string, as
  bcryptjs does), and a store with two users: alice has an active TOTP
  secret; bob has been deactivated, has no active secret and an unconfirmed enrolment.
\<close>

definition example_libs :: libs where
  "example_libs =
     \<lparr>bcrypt_compare = (\<lambda>p h. h = ''bcrypt:'' @ p),
      bcrypt_hash = (\<lambda>v rounds. case v of JString p \<Rightarrow> Some (''bcrypt:'' @ p) | _ \<Rightarrow> None),
      jwt_sign = (\<lambda>i n e. ''jwt:'' @ n),
      totp_verify = (\<lambda>secret token w. token = ''123456''),
      prepareValue = (\<lambda>v. ''?''),
      less_than_8 = (\<lambda>v. False)\<rparr>"

definition alice :: user where
  "alice =
     \<lparr>u_id = 1, username = ''alice'', email = ''a@example.com'',
      password_hash = ''bcrypt:password123'', totp_secret = Some ''JBSWY3DPEHPK3PXP'',
      totp_temp_secret = None, is_active = True, is_admin = False, created_at = 10,
      updated_at = 10, last_login = None\<rparr>"

definition bob :: user where
  "bob =
     \<lparr>u_id = 2, username = ''bob'', email = ''b@example.com'',
      password_hash = ''bcrypt:hunter2hunter2'', totp_secret = None,
      totp_temp_secret = Some ''KRSXG5CTMVRXEZLU'', is_active = False, is_admin = False,
      created_at = 20, updated_at = 20, last_login = None\<rparr>"

definition example_db :: db where
  "example_db = \<lparr>users = [alice, bob], api_keys = [], audit_logs = []\<rparr>"

definition login_as :: "string \<Rightarrow> string \<Rightarrow> field \<Rightarrow> login_body" where
  "login_as e p code = \<lparr>l_email = Some e, l_password = Some p, l_totp = code\<rparr>"

text \<open>The store after bob has started a new enrolment.\<close>

definition enrolling :: db where
  "enrolling = snd (setup_2fa 100 ''GEZDGNBVGY3TQOJQ'' ''otpauth://totp/bob'' id example_db 2)"

text \<open>
  A stand-in digest under which keys collide, a stored key of alice's, days of 86400
  seconds, and a request to create a key.
\<close>

definition example_sha256 :: "string \<Rightarrow> string" where
  "example_sha256 s = ''#'' @ take 5 s"

definition example_key :: api_key where
  "example_key =
     \<lparr>k_id = 7, k_user_id = 1, name = ''ci'', key_hash = ''#ffl_0'', permissions = Some [],
      last_used_at = None, expires_at = Some 1000, k_is_active = True, k_created_at = 50\<rparr>"

definition example_add_days :: "timestamp \<Rightarrow> real \<Rightarrow> timestamp option" where
  "example_add_days now n = Some (now + \<lfloor>n\<rfloor> * 86400)"

definition keys_db :: "api_key list \<Rightarrow> db" where
  "keys_db ks = example_db\<lparr>api_keys := ks\<rparr>"

definition named :: "string \<Rightarrow> api_key_body" where
  "named n = \<lparr>b_name = Some n, b_permissions = None, b_expiresInDays = None\<rparr>"

text \<open>A stand-in for the HMAC-derived number of a secret and a counter.\<close>

definition example_hmac :: "string \<Rightarrow> int \<Rightarrow> nat" where
  "example_hmac secret c = length secret + 7 * nat \<bar>c\<bar>"

section \<open>Properties\<close>

lemmas example_defs =
  example_libs_def example_db_def alice_def bob_def login_as_def truthy_def str_def

lemmas example_defs' =
  example_defs example_sha256_def example_add_days_def example_key_def keys_db_def named_def

lemma filter_email_map:
  "(\<And>u. email (g u) = email u) \<Longrightarrow>
   filter (\<lambda>u. email u = e) (map g xs) = map g (filter (\<lambda>u. email u = e) xs)"
  by (induction xs) auto

subsection \<open>Login\<close>

text \<open>
  C1. A login request is answered with a bearer token if and only if it carries an
  email and a password, the password verifies against the stored hash of the user with
  that email, and either that user has no active TOTP secret or the request carries a
  code that verifies (window 1) against the active secret. The token is then the one
  signed for that user's id and name with a validity of 24 hours, the response carries
  it with the user's profile, and the store changes in that user's \<open>last_login\<close>
  (and trigger-maintained \<open>updated_at\<close>) only. In particular, when the password
  verifies, an active TOTP secret exists and no code is supplied, the response is 200
  with \<open>{require2FA: true}\<close>, no token is issued and the store is unchanged.
\<close>

theorem login_token_iff_complete:
  "((\<exists>t. token_of (fst (login L now d req)) = Some t) \<longleftrightarrow>
      truthy (l_email req) \<and> truthy (l_password req) \<and>
      (\<exists>user rest.
         filter (\<lambda>u. email u = str (l_email req)) (users d) = user # rest \<and>
         bcrypt_compare L (str (l_password req)) (password_hash user) \<and>
         (\<not> truthy (totp_secret user) \<or>
          truthy (l_totp req) \<and>
          totp_verify L (str (totp_secret user)) (str (l_totp req)) 1))) \<and>
   (\<forall>user rest.
      truthy (l_email req) \<and> truthy (l_password req) \<and>
      filter (\<lambda>u. email u = str (l_email req)) (users d) = user # rest \<and>
      bcrypt_compare L (str (l_password req)) (password_hash user) \<and>
      (\<not> truthy (totp_secret user) \<or>
       truthy (l_totp req) \<and>
       totp_verify L (str (totp_secret user)) (str (l_totp req)) 1) \<longrightarrow>
      login L now d req =
        (Response 200
           (LoginOk (jwt_sign L (u_id user) (username user) ''24h'')
              \<lparr>p_id = u_id user, p_username = username user, p_email = email user,
               has2FA = truthy (totp_secret user)\<rparr>),
         d\<lparr>users :=
             map (\<lambda>u. if u_id u = u_id user
                       then u\<lparr>last_login := Some now, updated_at := now\<rparr> else u)
               (users d)\<rparr>) \<and>
      token_of (fst (login L now d req)) =
        Some (jwt_sign L (u_id user) (username user) ''24h'')) \<and>
   (truthy (l_email req) \<and> truthy (l_password req) \<and>
    (\<exists>user rest.
       filter (\<lambda>u. email u = str (l_email req)) (users d) = user # rest \<and>
       bcrypt_compare L (str (l_password req)) (password_hash user) \<and>
       truthy (totp_secret user)) \<and>
    \<not> truthy (l_totp req) \<longrightarrow>
    login L now d req = (Response 200 Require2FA, d) \<and>
    token_of (fst (login L now d req)) = None)"
  by (auto simp: login_def issue_login_def update_user_def update_updated_at_column_def
      split: list.splits)

theorem login_token_iff_complete_witness:
  "login example_libs 100 example_db
      (login_as ''a@example.com'' ''password123'' (Some ''123456'')) =
     (Response 200
        (LoginOk ''jwt:alice''
           \<lparr>p_id = 1, p_username = ''alice'', p_email = ''a@example.com'', has2FA = True\<rparr>),
      example_db\<lparr>users := [alice\<lparr>last_login := Some 100, updated_at := 100\<rparr>, bob]\<rparr>) \<and>
   login example_libs 100 example_db (login_as ''a@example.com'' ''password123'' None) =
     (Response 200 Require2FA, example_db) \<and>
   token_of (fst (login example_libs 100 example_db
      (login_as ''a@example.com'' ''password123'' None))) = None"
  using login_token_iff_complete [of example_libs 100 example_db
          "login_as ''a@example.com'' ''password123'' (Some ''123456'')"]
        login_token_iff_complete [of example_libs 100 example_db
          "login_as ''a@example.com'' ''password123'' None"]
  by (simp add: example_defs)

text \<open>The token of a login response is signed for the user the email names.\<close>

lemma login_token_is_users:
  "token_of (fst (login L now d req)) = Some t \<Longrightarrow>
   \<exists>user rest. filter (\<lambda>u. email u = str (l_email req)) (users d) = user # rest \<and>
     t = jwt_sign L (u_id user) (username user) ''24h''"
  by (auto simp add: login_def issue_login_def split: list.splits if_splits)

text \<open>
  C3, as stated: no token is issued to a user whose \<open>is_active\<close> flag is false. The
  login handler never reads the flag: bob is deactivated and his correct password gets
  him a token.
\<close>

theorem inactive_user_login_counterexample:
  "\<not> is_active bob \<and>
   token_of (fst (login example_libs 100 example_db
      (login_as ''b@example.com'' ''hunter2hunter2'' None))) = Some ''jwt:bob''"
  by (simp add: example_defs login_def issue_login_def)

text \<open>
  C3, amended: the response to a login request does not depend on the \<open>is_active\<close>
  flags of the store; a deactivated user is issued a token under exactly the conditions
  under which an active one is.
\<close>

theorem login_ignores_is_active:
  "fst (login L now (d\<lparr>users := map (\<lambda>u. u\<lparr>is_active := f u\<rparr>) (users d)\<rparr>) req) =
   fst (login L now d req)"
  by (simp add: login_def issue_login_def filter_email_map split: list.splits)

theorem login_ignores_is_active_witness:
  "fst (login example_libs 100
          (example_db\<lparr>users := map (\<lambda>u. u\<lparr>is_active := True\<rparr>) (users example_db)\<rparr>)
          (login_as ''b@example.com'' ''hunter2hunter2'' None)) =
   fst (login example_libs 100 example_db (login_as ''b@example.com'' ''hunter2hunter2'' None)) \<and>
   fst (login example_libs 100 example_db (login_as ''b@example.com'' ''hunter2hunter2'' None)) =
     Response 200 (LoginOk ''jwt:bob''
       \<lparr>p_id = 2, p_username = ''bob'', p_email = ''b@example.com'', has2FA = False\<rparr>)"
  using login_ignores_is_active [of example_libs 100 "\<lambda>u. True" example_db
      "login_as ''b@example.com'' ''hunter2hunter2'' None"]
  by (simp add: example_defs login_def issue_login_def)




subsection \<open>Token verification\<close>

text \<open>
  C5: an expired token and an invalid one are to be answered differently on every
  authenticated endpoint. The routes of routes/auth.js (\<open>/setup-2fa\<close>,
  \<open>/verify-2fa\<close>) answer an expired token as they answer an invalid one, with 403
  and \<open>Invalid or expired token\<close>; the routes behind middleware/auth.js answer it
  with 401 and \<open>Token expired\<close>.
\<close>

theorem expired_token_on_auth_routes:
  "post_setup_2fa (\<lambda>t. Inl TokenExpiredError) now base32 url qr d (Some ''Bearer abc.def.ghi'') =
     (Response 403 (Error ''Invalid or expired token''), d) \<and>
   post_setup_2fa (\<lambda>t. Inl JsonWebTokenError) now base32 url qr d (Some ''Bearer abc.def.ghi'') =
     (Response 403 (Error ''Invalid or expired token''), d) \<and>
   post_verify_2fa (\<lambda>t. Inl TokenExpiredError) L now d (Some ''Bearer abc.def.ghi'') code =
     (Response 403 (Error ''Invalid or expired token''), d) \<and>
   post_disable_2fa (\<lambda>t. Inl TokenExpiredError) L now ip d (Some ''Bearer abc.def.ghi'') pw =
     (Response 401 (Error ''Token expired''), d) \<and>
   post_disable_2fa (\<lambda>t. Inl JsonWebTokenError) L now ip d (Some ''Bearer abc.def.ghi'') pw =
     (Response 403 (Error ''Invalid or expired token''), d)"
  by (simp add: post_setup_2fa_def post_verify_2fa_def post_disable_2fa_def
      authenticateToken_def authenticateToken_auth_def bearer_def truthy_def str_def)

subsection \<open>Two-factor enrolment\<close>

lemma login_ignores_pending:
  "fst (login L now (d\<lparr>users := map (\<lambda>u. u\<lparr>totp_temp_secret := f u\<rparr>) (users d)\<rparr>) req) =
   fst (login L now d req)"
  by (simp add: login_def issue_login_def filter_email_map split: list.splits)

lemma setup_2fa_frame:
  "map (\<lambda>u. u\<lparr>totp_temp_secret := None, updated_at := 0\<rparr>)
       (users (snd (setup_2fa now base32 url qr d uid))) =
   map (\<lambda>u. u\<lparr>totp_temp_secret := None, updated_at := 0\<rparr>) (users d)"
  by (simp add: setup_2fa_def update_user_def update_updated_at_column_def)

lemma setup_2fa_active:
  "map totp_secret (users (snd (setup_2fa now base32 url qr d uid))) = map totp_secret (users d)"
  by (simp add: setup_2fa_def update_user_def update_updated_at_column_def)

lemma updated_rows:
  "(\<And>u. P (g u)) \<Longrightarrow>
   \<forall>u \<in> set (map (\<lambda>u. if u_id u = i then g u else u) xs). u_id u = i \<longrightarrow> P u"
  by (induction xs) auto

lemma setup_2fa_pending:
  "\<forall>u \<in> set (users (snd (setup_2fa now base32 url qr d uid))).
     u_id u = uid \<longrightarrow> totp_temp_secret u = Some base32"
proof -
  have rows: "users (snd (setup_2fa now base32 url qr d uid)) =
      map (\<lambda>u. if u_id u = uid
                then update_updated_at_column now (u\<lparr>totp_temp_secret := Some base32\<rparr>)
                else u) (users d)"
    by (simp add: setup_2fa_def update_user_def)
  show ?thesis
    unfolding rows by (rule updated_rows) (simp add: update_updated_at_column_def)
qed

lemma setup_2fa_api_keys:
  "api_keys (snd (setup_2fa now base32 url qr d uid)) = api_keys d"
  by (simp add: setup_2fa_def update_user_def)

lemma setup_2fa_audit_logs:
  "audit_logs (snd (setup_2fa now base32 url qr d uid)) = audit_logs d"
  by (simp add: setup_2fa_def update_user_def)

lemma verify_2fa_200:
  "status (fst (verify_2fa L now d uid token)) = 200 \<longleftrightarrow>
     truthy token \<and>
     (\<exists>row rest. filter (\<lambda>u. u_id u = uid) (users d) = row # rest \<and>
        truthy (totp_temp_secret row) \<and>
        totp_verify L (str (totp_temp_secret row)) (str token) 1)"
  by (simp add: verify_2fa_def Let_def split: list.splits)

lemma verify_2fa_failed:
  "status (fst (verify_2fa L now d uid token)) \<noteq> 200 \<longrightarrow> snd (verify_2fa L now d uid token) = d"
  by (simp add: verify_2fa_def Let_def split: list.splits if_splits)

lemma verify_2fa_promotes:
  assumes rows: "filter (\<lambda>u. u_id u = uid) (users d) = row # rest"
    and ok: "status (fst (verify_2fa L now d uid token)) = 200"
  shows "users (snd (verify_2fa L now d uid token)) =
     map (\<lambda>u. if u_id u = uid
               then u\<lparr>totp_secret := totp_temp_secret row, totp_temp_secret := None,
                      updated_at := now\<rparr>
               else u) (users d)"
proof -
  from ok rows have tok: "truthy token" and pending: "truthy (totp_temp_secret row)"
    and code: "totp_verify L (str (totp_temp_secret row)) (str token) 1"
    by (simp_all add: verify_2fa_200)
  from pending obtain s where s: "totp_temp_secret row = Some s" and ne: "s \<noteq> []"
    by (cases "totp_temp_secret row") (simp_all add: truthy_def)
  from code s have code': "totp_verify L s (str token) 1"
    by (simp add: str_def)
  have v: "verify_2fa L now d uid token =
      (Response 200 (Message ''2FA activated successfully''),
       update_user now uid (\<lambda>u. u\<lparr>totp_secret := Some s, totp_temp_secret := None\<rparr>) d)"
    using rows tok s ne code' by (simp add: verify_2fa_def Let_def truthy_def str_def)
  show ?thesis
    unfolding v s by (simp add: update_user_def update_updated_at_column_def)
qed

lemma login_without_active_secret:
  "truthy (l_email req) \<Longrightarrow> truthy (l_password req) \<Longrightarrow>
   filter (\<lambda>u. email u = str (l_email req)) (users d) = user # rest \<Longrightarrow>
   bcrypt_compare L (str (l_password req)) (password_hash user) \<Longrightarrow>
   \<not> truthy (totp_secret user) \<Longrightarrow>
   token_of (fst (login L now d req)) = Some (jwt_sign L (u_id user) (username user) ''24h'')"
  by (simp add: login_def issue_login_def)


lemma setup_2fa_exact:
  "setup_2fa now base32 url qr d uid =
     (Response 200 (Setup2FA base32 (qr url) base32),
      d\<lparr>users :=
          map (\<lambda>u. if u_id u = uid
                    then u\<lparr>totp_temp_secret := Some base32, updated_at := now\<rparr> else u)
            (users d)\<rparr>)"
  by (simp add: setup_2fa_def update_user_def update_updated_at_column_def)

lemma verify_2fa_api_keys:
  "api_keys (snd (verify_2fa L now d uid token)) = api_keys d"
  by (simp add: verify_2fa_def Let_def update_user_def split: list.splits)

lemma verify_2fa_audit_logs:
  "audit_logs (snd (verify_2fa L now d uid token)) = audit_logs d"
  by (simp add: verify_2fa_def Let_def update_user_def split: list.splits)

lemma verify_2fa_response:
  "status (fst (verify_2fa L now d uid token)) = 200 \<longrightarrow>
   fst (verify_2fa L now d uid token) = Response 200 (Message ''2FA activated successfully'')"
  by (simp add: verify_2fa_def Let_def split: list.splits)

lemma map_updated_rows:
  "(\<And>u. h (g u) = h u) \<Longrightarrow> map h (map (\<lambda>u. if u_id u = i then g u else u) xs) = map h xs"
  by (induction xs) auto

lemma login_store:
  "snd (login L now d req) = d \<or>
   snd (login L now d req) =
     update_user now (u_id (hd (filter (\<lambda>u. email u = str (l_email req)) (users d))))
       (\<lambda>u. u\<lparr>last_login := Some now\<rparr>) d"
  by (simp add: login_def issue_login_def split: list.splits)

lemma update_last_login_keeps_active:
  "map totp_secret (users (update_user now i (\<lambda>u. u\<lparr>last_login := Some now\<rparr>) d)) =
     map totp_secret (users d)"
  by (simp add: update_user_def update_updated_at_column_def map_updated_rows)

lemma update_last_login_keeps_pending:
  "map totp_temp_secret (users (update_user now i (\<lambda>u. u\<lparr>last_login := Some now\<rparr>) d)) =
     map totp_temp_secret (users d)"
  by (simp add: update_user_def update_updated_at_column_def map_updated_rows)

lemma login_keeps_active_secrets:
  "map totp_secret (users (snd (login L now d req))) = map totp_secret (users d)"
proof -
  from login_store [of L now d req] show ?thesis
  proof
    assume "snd (login L now d req) = d"
    then show ?thesis by simp
  next
    assume "snd (login L now d req) =
      update_user now (u_id (hd (filter (\<lambda>u. email u = str (l_email req)) (users d))))
        (\<lambda>u. u\<lparr>last_login := Some now\<rparr>) d"
    then show ?thesis by (simp only: update_last_login_keeps_active)
  qed
qed

lemma login_keeps_pending_secrets:
  "map totp_temp_secret (users (snd (login L now d req))) = map totp_temp_secret (users d)"
proof -
  from login_store [of L now d req] show ?thesis
  proof
    assume "snd (login L now d req) = d"
    then show ?thesis by simp
  next
    assume "snd (login L now d req) =
      update_user now (u_id (hd (filter (\<lambda>u. email u = str (l_email req)) (users d))))
        (\<lambda>u. u\<lparr>last_login := Some now\<rparr>) d"
    then show ?thesis by (simp only: update_last_login_keeps_pending)
  qed
qed

text \<open>
  C6. Enrolment has two phases. \<open>setup-2fa\<close> answers with the new secret and sets the
  pending secret of the user's row (and the \<open>updated_at\<close> column the trigger
  maintains); no other row, no other column (the active secrets among them) and no other
  table changes. \<open>verify-2fa\<close> succeeds exactly when a code is supplied that verifies
  against the row's pending secret; it then makes the pending secret the active one and
  clears the pending one, and otherwise leaves the store unchanged; the other tables are
  as before either way. Login does not depend on pending secrets and changes no secret:
  its response is the same whatever the pending secrets are, a user with no active
  secret is issued a token on the password alone, and after a login every active and
  every pending secret is what it was.
\<close>

theorem two_phase_enrolment:
  "(setup_2fa now base32 url qr d uid =
      (Response 200 (Setup2FA base32 (qr url) base32),
       d\<lparr>users :=
           map (\<lambda>u. if u_id u = uid
                     then u\<lparr>totp_temp_secret := Some base32, updated_at := now\<rparr> else u)
             (users d)\<rparr>) \<and>
    map totp_secret (users (snd (setup_2fa now base32 url qr d uid))) = map totp_secret (users d) \<and>
    map (\<lambda>u. u\<lparr>totp_temp_secret := None, updated_at := 0\<rparr>)
        (users (snd (setup_2fa now base32 url qr d uid))) =
      map (\<lambda>u. u\<lparr>totp_temp_secret := None, updated_at := 0\<rparr>) (users d) \<and>
    api_keys (snd (setup_2fa now base32 url qr d uid)) = api_keys d \<and>
    audit_logs (snd (setup_2fa now base32 url qr d uid)) = audit_logs d \<and>
    (\<forall>u \<in> set (users (snd (setup_2fa now base32 url qr d uid))).
       u_id u = uid \<longrightarrow> totp_temp_secret u = Some base32)) \<and>
   ((status (fst (verify_2fa L now d uid token)) = 200 \<longleftrightarrow>
       truthy token \<and>
       (\<exists>row rest. filter (\<lambda>u. u_id u = uid) (users d) = row # rest \<and>
          truthy (totp_temp_secret row) \<and>
          totp_verify L (str (totp_temp_secret row)) (str token) 1)) \<and>
    (status (fst (verify_2fa L now d uid token)) \<noteq> 200 \<longrightarrow>
       snd (verify_2fa L now d uid token) = d) \<and>
    (\<forall>row rest.
       filter (\<lambda>u. u_id u = uid) (users d) = row # rest \<and>
       status (fst (verify_2fa L now d uid token)) = 200 \<longrightarrow>
       users (snd (verify_2fa L now d uid token)) =
         map (\<lambda>u. if u_id u = uid
                   then u\<lparr>totp_secret := totp_temp_secret row, totp_temp_secret := None,
                          updated_at := now\<rparr>
                   else u) (users d)) \<and>
    (status (fst (verify_2fa L now d uid token)) = 200 \<longrightarrow>
       fst (verify_2fa L now d uid token) =
         Response 200 (Message ''2FA activated successfully'')) \<and>
    api_keys (snd (verify_2fa L now d uid token)) = api_keys d \<and>
    audit_logs (snd (verify_2fa L now d uid token)) = audit_logs d) \<and>
   (fst (login L now (d\<lparr>users := map (\<lambda>u. u\<lparr>totp_temp_secret := f u\<rparr>) (users d)\<rparr>) req) =
      fst (login L now d req) \<and>
    (\<forall>user rest.
       truthy (l_email req) \<and> truthy (l_password req) \<and>
       filter (\<lambda>u. email u = str (l_email req)) (users d) = user # rest \<and>
       bcrypt_compare L (str (l_password req)) (password_hash user) \<and>
       \<not> truthy (totp_secret user) \<longrightarrow>
       token_of (fst (login L now d req)) =
         Some (jwt_sign L (u_id user) (username user) ''24h'')) \<and>
    map totp_secret (users (snd (login L now d req))) = map totp_secret (users d) \<and>
    map totp_temp_secret (users (snd (login L now d req))) =
      map totp_temp_secret (users d))"
proof -
  have promoted: "\<forall>row rest.
       filter (\<lambda>u. u_id u = uid) (users d) = row # rest \<and>
       status (fst (verify_2fa L now d uid token)) = 200 \<longrightarrow>
       users (snd (verify_2fa L now d uid token)) =
         map (\<lambda>u. if u_id u = uid
                   then u\<lparr>totp_secret := totp_temp_secret row, totp_temp_secret := None,
                          updated_at := now\<rparr>
                   else u) (users d)"
    using verify_2fa_promotes [where uid = uid and d = d and L = L and now = now and token = token]
    by blast
  have pending_only: "\<forall>user rest.
       truthy (l_email req) \<and> truthy (l_password req) \<and>
       filter (\<lambda>u. email u = str (l_email req)) (users d) = user # rest \<and>
       bcrypt_compare L (str (l_password req)) (password_hash user) \<and>
       \<not> truthy (totp_secret user) \<longrightarrow>
       token_of (fst (login L now d req)) =
         Some (jwt_sign L (u_id user) (username user) ''24h'')"
    using login_without_active_secret [where req = req and d = d and L = L and now = now]
    by blast
  show ?thesis
    by (intro conjI)
      (rule setup_2fa_exact setup_2fa_active setup_2fa_frame setup_2fa_api_keys
        setup_2fa_audit_logs setup_2fa_pending verify_2fa_200 verify_2fa_failed promoted
        verify_2fa_response verify_2fa_api_keys verify_2fa_audit_logs login_ignores_pending
        pending_only login_keeps_active_secrets login_keeps_pending_secrets)+
qed

theorem two_phase_enrolment_witness:
  "setup_2fa 100 ''GEZDGNBVGY3TQOJQ'' ''otpauth://totp/bob'' id example_db 2 =
     (Response 200 (Setup2FA ''GEZDGNBVGY3TQOJQ'' ''otpauth://totp/bob'' ''GEZDGNBVGY3TQOJQ''),
      example_db\<lparr>users :=
        [alice, bob\<lparr>totp_temp_secret := Some ''GEZDGNBVGY3TQOJQ'', updated_at := 100\<rparr>]\<rparr>) \<and>
   verify_2fa example_libs 200 enrolling 2 (Some ''654321'') =
     (Response 400 (Error ''Invalid 2FA token''), enrolling) \<and>
   verify_2fa example_libs 200 enrolling 2 (Some ''123456'') =
     (Response 200 (Message ''2FA activated successfully''),
      example_db\<lparr>users :=
        [alice, bob\<lparr>totp_secret := Some ''GEZDGNBVGY3TQOJQ'', totp_temp_secret := None,
                    updated_at := 200\<rparr>]\<rparr>) \<and>
   login example_libs 300 enrolling (login_as ''b@example.com'' ''hunter2hunter2'' None) =
     (Response 200
        (LoginOk ''jwt:bob''
           \<lparr>p_id = 2, p_username = ''bob'', p_email = ''b@example.com'', has2FA = False\<rparr>),
      example_db\<lparr>users :=
        [alice, bob\<lparr>totp_temp_secret := Some ''GEZDGNBVGY3TQOJQ'', last_login := Some 300,
                    updated_at := 300\<rparr>]\<rparr>)"
proof -
  have started: "setup_2fa 100 ''GEZDGNBVGY3TQOJQ'' ''otpauth://totp/bob'' id example_db 2 =
     (Response 200 (Setup2FA ''GEZDGNBVGY3TQOJQ'' ''otpauth://totp/bob'' ''GEZDGNBVGY3TQOJQ''),
      example_db\<lparr>users :=
        [alice, bob\<lparr>totp_temp_secret := Some ''GEZDGNBVGY3TQOJQ'', updated_at := 100\<rparr>]\<rparr>)"
    using two_phase_enrolment [where now = 100 and ?base32.0 = "''GEZDGNBVGY3TQOJQ''"
      and url = "''otpauth://totp/bob''" and qr = id and d = example_db and uid = 2,
      THEN conjunct1, THEN conjunct1]
    by (simp add: example_db_def alice_def bob_def)
  have enrolling: "enrolling = example_db\<lparr>users :=
        [alice, bob\<lparr>totp_temp_secret := Some ''GEZDGNBVGY3TQOJQ'', updated_at := 100\<rparr>]\<rparr>"
    unfolding enrolling_def started by simp
  have rows: "filter (\<lambda>u. u_id u = 2) (users enrolling) =
      [bob\<lparr>totp_temp_secret := Some ''GEZDGNBVGY3TQOJQ'', updated_at := 100\<rparr>]"
    by (simp add: enrolling example_db_def alice_def bob_def)
  have bad_response: "fst (verify_2fa example_libs 200 enrolling 2 (Some ''654321'')) =
      Response 400 (Error ''Invalid 2FA token'')"
    by (simp add: verify_2fa_def rows truthy_def str_def example_libs_def)
  then have bad_status:
    "status (fst (verify_2fa example_libs 200 enrolling 2 (Some ''654321''))) \<noteq> 200"
    by simp
  from bad_status
    two_phase_enrolment [where L = example_libs and now = 200 and d = enrolling and uid = 2
      and token = "Some ''654321''", THEN conjunct2, THEN conjunct1, THEN conjunct2,
      THEN conjunct1]
  have "snd (verify_2fa example_libs 200 enrolling 2 (Some ''654321'')) = enrolling"
    by blast
  with bad_response have bad: "verify_2fa example_libs 200 enrolling 2 (Some ''654321'') =
      (Response 400 (Error ''Invalid 2FA token''), enrolling)"
    by (simp add: prod_eq_iff)
  have good_response: "fst (verify_2fa example_libs 200 enrolling 2 (Some ''123456'')) =
      Response 200 (Message ''2FA activated successfully'')"
    by (simp add: verify_2fa_def rows truthy_def str_def example_libs_def)
  then have good_status:
    "status (fst (verify_2fa example_libs 200 enrolling 2 (Some ''123456''))) = 200"
    by simp
  from rows good_status
    two_phase_enrolment [where L = example_libs and now = 200 and d = enrolling and uid = 2
      and token = "Some ''123456''", THEN conjunct2, THEN conjunct1, THEN conjunct2,
      THEN conjunct2, THEN conjunct1]
  have "users (snd (verify_2fa example_libs 200 enrolling 2 (Some ''123456''))) =
      map (\<lambda>u. if u_id u = 2
                then u\<lparr>totp_secret :=
                         totp_temp_secret
                           (bob\<lparr>totp_temp_secret := Some ''GEZDGNBVGY3TQOJQ'', updated_at := 100\<rparr>),
                       totp_temp_secret := None, updated_at := 200\<rparr>
                else u) (users enrolling)"
    by blast
  then have promoted: "users (snd (verify_2fa example_libs 200 enrolling 2 (Some ''123456''))) =
      [alice, bob\<lparr>totp_secret := Some ''GEZDGNBVGY3TQOJQ'', totp_temp_secret := None,
                  updated_at := 200\<rparr>]"
    by (simp add: enrolling example_db_def alice_def bob_def)
  have "api_keys (snd (verify_2fa example_libs 200 enrolling 2 (Some ''123456''))) = []"
    and "audit_logs (snd (verify_2fa example_libs 200 enrolling 2 (Some ''123456''))) = []"
    by (simp_all add: verify_2fa_api_keys verify_2fa_audit_logs enrolling example_db_def)
  with promoted
  have "snd (verify_2fa example_libs 200 enrolling 2 (Some ''123456'')) =
      example_db\<lparr>users :=
        [alice, bob\<lparr>totp_secret := Some ''GEZDGNBVGY3TQOJQ'', totp_temp_secret := None,
                    updated_at := 200\<rparr>]\<rparr>"
    by (simp add: example_db_def)
  with good_response
  have good: "verify_2fa example_libs 200 enrolling 2 (Some ''123456'') =
     (Response 200 (Message ''2FA activated successfully''),
      example_db\<lparr>users :=
        [alice, bob\<lparr>totp_secret := Some ''GEZDGNBVGY3TQOJQ'', totp_temp_secret := None,
                    updated_at := 200\<rparr>]\<rparr>)"
    by (simp add: prod_eq_iff)
  have login: "login example_libs 300 enrolling
        (login_as ''b@example.com'' ''hunter2hunter2'' None) =
     (Response 200
        (LoginOk ''jwt:bob''
           \<lparr>p_id = 2, p_username = ''bob'', p_email = ''b@example.com'', has2FA = False\<rparr>),
      example_db\<lparr>users :=
        [alice, bob\<lparr>totp_temp_secret := Some ''GEZDGNBVGY3TQOJQ'', last_login := Some 300,
                    updated_at := 300\<rparr>]\<rparr>)"
    by (simp add: enrolling example_defs login_def issue_login_def update_user_def
        update_updated_at_column_def)
  show ?thesis
    unfolding started bad good login by simp
qed

subsection \<open>Registration\<close>

text \<open>
  A missing or falsy password, and a string of fewer than 8 characters, are answered with
  400; nothing has been passed to \<open>bcrypt.hash\<close> and the store is unchanged.
\<close>

lemma register_rejects_short_string:
  "\<not> js_truthy (r_password req) \<or>
   (\<exists>s. r_password req = Some (JString s) \<and> length s < 8) \<longrightarrow>
     status (fst (register L now new_id d req)) = 400 \<and>
     snd (register L now new_id d req) = (d, [])"
  by (auto simp add: register_def val_def)

text \<open>An accepted registration has hashed the password, once, and added one row.\<close>

lemma register_hashes_accepted_password:
  "status (fst (register L now new_id d req)) = 201 \<Longrightarrow>
   snd (snd (register L now new_id d req)) = [val (r_password req)] \<and>
   length (users (fst (snd (register L now new_id d req)))) = Suc (length (users d))"
  by (auto simp add: register_def Let_def split: if_splits option.splits prod.splits)

text \<open>
  C9: a password shorter than 8 characters is to be answered with 400 before any hashing.
  The guard compares \<open>password.length\<close> with 8. A truthy password that has no length
  (a number such as 1234567, or \<open>true\<close>) passes it: for a new username and email the
  handler calls \<open>bcrypt.hash\<close> with it and does not answer 400; when the call
  rejects, as bcryptjs does for what is not a string, the answer is 500. No user is
  created.
\<close>

theorem register_hashes_password_without_length:
  "js_truthy (Some password) \<and> js_length password = None \<and>
   js_truthy (r_username req) \<and> js_truthy (r_email req) \<and> r_password req = Some password \<and>
   \<not> has_nul (pg_text L (val (r_email req))) \<and>
   \<not> has_nul (pg_text L (val (r_username req))) \<and>
   filter (\<lambda>u. email u = pg_text L (val (r_email req)) \<or>
               username u = pg_text L (val (r_username req))) (users d) = [] \<longrightarrow>
     snd (snd (register L now new_id d req)) = [password] \<and>
     status (fst (register L now new_id d req)) \<noteq> 400 \<and>
     (bcrypt_hash L password 12 = None \<longrightarrow>
        register L now new_id d req =
          (Response 500 (Error ''Internal server error''), d, [password]))"
  by (simp add: register_def val_def Let_def split: option.splits prod.splits)

theorem register_hashes_password_without_length_witness:
  "register example_libs 100 3 example_db
     \<lparr>r_username = Some (JString ''carol''), r_email = Some (JString ''c@example.com''),
      r_password = Some (JNumber 1234567)\<rparr> =
   (Response 500 (Error ''Internal server error''), example_db, [JNumber 1234567]) \<and>
   register example_libs 100 3 example_db
     \<lparr>r_username = Some (JString ''carol''), r_email = Some (JString ''c@example.com''),
      r_password = Some (JString ''1234567'')\<rparr> =
   (Response 400 (Error ''Password must be at least 8 characters long''), example_db, [])"
  using register_hashes_password_without_length [where password = "JNumber 1234567"
      and L = example_libs and now = 100 and new_id = 3 and d = example_db
      and req = "\<lparr>r_username = Some (JString ''carol''),
        r_email = Some (JString ''c@example.com''), r_password = Some (JNumber 1234567)\<rparr>"]
  by (simp add: example_defs register_def val_def pg_text_def has_nul_def)

subsection \<open>Disabling two-factor authentication\<close>





subsection \<open>API keys\<close>

lemma create_api_key_response:
  "apiKey_of (fst (create_api_key sha256 add_days rb now new_id ip d uid req)) =
     (if status (fst (create_api_key sha256 add_days rb now new_id ip d uid req)) = 201
      then Some (''ffl_'' @ to_hex rb) else None)"
  by (simp add: create_api_key_def Let_def split: option.splits prod.splits)

lemma create_api_key_stores_digest:
  "status (fst (create_api_key sha256 add_days rb now new_id ip d uid req)) = 201 \<longrightarrow>
   map key_hash (api_keys (snd (create_api_key sha256 add_days rb now new_id ip d uid req))) =
     map key_hash (api_keys d) @ [sha256 (''ffl_'' @ to_hex rb)]"
  by (simp add: create_api_key_def Let_def log_action_def split: option.splits prod.splits)

lemma create_api_key_state_by_digest:
  "sha256 (''ffl_'' @ to_hex rb) = sha256' (''ffl_'' @ to_hex rb') \<longrightarrow>
   snd (create_api_key sha256 add_days rb now new_id ip d uid req) =
   snd (create_api_key sha256' add_days rb' now new_id ip d uid req)"
  by (simp add: create_api_key_def Let_def split: option.splits prod.splits)

lemma insort_key_mapped:
  "insort_key f (e x) (map e ys) = map e (insort_key (\<lambda>y. f (e y)) x ys)"
  by (induction ys) simp_all

lemma sort_key_mapped: "sort_key f (map e xs) = map e (sort_key (\<lambda>y. f (e y)) xs)"
  by (induction xs) (simp_all add: insort_key_mapped)

lemma get_api_keys_without_digests:
  "get_api_keys (d\<lparr>api_keys := map (\<lambda>k. k\<lparr>key_hash := []\<rparr>) (api_keys d)\<rparr>) who =
   get_api_keys d who"
  by (simp add: get_api_keys_def filter_map sort_key_mapped returning_def o_def)

lemma create_api_key_without_digests:
  "map (\<lambda>k. k\<lparr>key_hash := []\<rparr>)
     (api_keys (snd (create_api_key sha256 add_days rb now new_id ip d uid req))) =
   map (\<lambda>k. k\<lparr>key_hash := []\<rparr>)
     (api_keys (snd (create_api_key sha256' add_days rb' now new_id ip d uid req)))"
  by (simp add: create_api_key_def Let_def log_action_def split: option.splits prod.splits)

lemma create_api_key_listing:
  "get_api_keys (snd (create_api_key sha256 add_days rb now new_id ip d uid req)) who =
   get_api_keys (snd (create_api_key sha256' add_days rb' now new_id ip d uid req)) who"
proof -
  let ?d1 = "snd (create_api_key sha256 add_days rb now new_id ip d uid req)"
  let ?d2 = "snd (create_api_key sha256' add_days rb' now new_id ip d uid req)"
  have "get_api_keys ?d1 who =
      get_api_keys (?d1\<lparr>api_keys := map (\<lambda>k. k\<lparr>key_hash := []\<rparr>) (api_keys ?d1)\<rparr>) who"
    by (simp only: get_api_keys_without_digests)
  also have "\<dots> =
      get_api_keys (?d2\<lparr>api_keys := map (\<lambda>k. k\<lparr>key_hash := []\<rparr>) (api_keys ?d2)\<rparr>) who"
    by (simp add: get_api_keys_def create_api_key_without_digests [where ?sha256.0 = sha256 and rb = rb and sha256' = sha256' and rb' = rb'])
  also have "\<dots> = get_api_keys ?d2 who"
    by (simp only: get_api_keys_without_digests)
  finally show ?thesis .
qed

lemma get_api_keys_no_raw: "apiKey_of (get_api_keys d who) = None"
  by (simp add: get_api_keys_def)

text \<open>
  C2. The raw API key is in the creation response and nowhere else. The response of
  \<open>POST /me/api-keys\<close> carries the raw key \<open>ffl_\<close> followed by the hex digits of
  the random bytes exactly when it is the 201 response; the new row stores the digest of
  the raw key; the store after the request is determined by that digest (two raw keys
  with the same digest leave the same store, so the raw key itself is not persisted);
  what \<open>GET /me/api-keys\<close> lists afterwards is the same whatever the raw key and the
  digest were, and a listing carries no raw key.
\<close>

theorem raw_api_key_only_in_creation_response:
  "apiKey_of (fst (create_api_key sha256 add_days rb now new_id ip d uid req)) =
     (if status (fst (create_api_key sha256 add_days rb now new_id ip d uid req)) = 201
      then Some (''ffl_'' @ to_hex rb) else None) \<and>
   (status (fst (create_api_key sha256 add_days rb now new_id ip d uid req)) = 201 \<longrightarrow>
      map key_hash (api_keys (snd (create_api_key sha256 add_days rb now new_id ip d uid req))) =
        map key_hash (api_keys d) @ [sha256 (''ffl_'' @ to_hex rb)]) \<and>
   (sha256 (''ffl_'' @ to_hex rb) = sha256' (''ffl_'' @ to_hex rb') \<longrightarrow>
      snd (create_api_key sha256 add_days rb now new_id ip d uid req) =
      snd (create_api_key sha256' add_days rb' now new_id ip d uid req)) \<and>
   get_api_keys (snd (create_api_key sha256 add_days rb now new_id ip d uid req)) who =
     get_api_keys (snd (create_api_key sha256' add_days rb' now new_id ip d uid req)) who \<and>
   apiKey_of (get_api_keys d' who) = None"
  by (intro conjI)
    (rule create_api_key_response create_api_key_stores_digest create_api_key_state_by_digest
      create_api_key_listing get_api_keys_no_raw)+

theorem raw_api_key_only_in_creation_response_witness:
  "apiKey_of (fst (create_api_key example_sha256 example_add_days [1] 100 8 ''::1''
      example_db 1 (named ''ci''))) = Some ''ffl_01'' \<and>
   map key_hash (api_keys (snd (create_api_key example_sha256 example_add_days [1] 100 8
      ''::1'' example_db 1 (named ''ci'')))) = [''#ffl_0''] \<and>
   snd (create_api_key example_sha256 example_add_days [1] 100 8 ''::1'' example_db 1
      (named ''ci'')) =
     snd (create_api_key example_sha256 example_add_days [2] 100 8 ''::1'' example_db 1
      (named ''ci'')) \<and>
   apiKey_of (fst (create_api_key example_sha256 example_add_days [2] 100 8 ''::1''
      example_db 1 (named ''ci''))) = Some ''ffl_02''"
  using raw_api_key_only_in_creation_response [where ?sha256.0 = example_sha256
      and add_days = example_add_days and rb = "[1]"
      and now = 100 and new_id = 8 and ip = "''::1''" and d = example_db and uid = 1
      and req = "named ''ci''" and sha256' = example_sha256 and rb' = "[2]" and who = 1
      and d' = example_db]
    raw_api_key_only_in_creation_response [where ?sha256.0 = example_sha256
      and add_days = example_add_days and rb = "[2]"
      and now = 100 and new_id = 8 and ip = "''::1''" and d = example_db and uid = 1
      and req = "named ''ci''" and sha256' = example_sha256 and rb' = "[1]" and who = 1
      and d' = example_db]
  by (simp add: example_defs' create_api_key_def Let_def to_hex_def hex_digit_def
      log_action_def varchar_def has_nul_def)

lemma authenticate_not_found:
  "authenticate sha256 now d rawKey = Inl NotFound \<longleftrightarrow>
   sha256 rawKey \<notin> set (map key_hash (api_keys d))"
proof -
  have "authenticate sha256 now d rawKey = Inl NotFound \<longleftrightarrow>
      filter (\<lambda>k. key_hash k = sha256 rawKey) (api_keys d) = []"
    by (simp add: authenticate_def split: list.splits)
  also have "\<dots> \<longleftrightarrow> sha256 rawKey \<notin> set (map key_hash (api_keys d))"
    by (simp add: filter_empty_conv image_iff) metis
  finally show ?thesis .
qed

text \<open>
  C8. \<open>authenticate\<close> digests the presented key and looks the digest up among the
  stored ones: it fails with \<open>NotFound\<close> exactly when no stored digest matches; for
  the matching row, it fails with \<open>Expired\<close> when \<open>expires_at\<close> has passed, with
  \<open>Revoked\<close> when the row has not expired and \<open>is_active\<close> is false, and returns
  the owning user id otherwise.
\<close>

theorem authenticate_outcomes:
  "(authenticate sha256 now d rawKey = Inl NotFound \<longleftrightarrow>
      sha256 rawKey \<notin> set (map key_hash (api_keys d))) \<and>
   (\<forall>k rest.
      filter (\<lambda>k. key_hash k = sha256 rawKey) (api_keys d) = k # rest \<longrightarrow>
      ((\<exists>t. expires_at k = Some t \<and> t < now) \<longrightarrow>
         authenticate sha256 now d rawKey = Inl Expired) \<and>
      (\<not> (\<exists>t. expires_at k = Some t \<and> t < now) \<and> \<not> k_is_active k \<longrightarrow>
         authenticate sha256 now d rawKey = Inl Revoked) \<and>
      (\<not> (\<exists>t. expires_at k = Some t \<and> t < now) \<and> k_is_active k \<longrightarrow>
         authenticate sha256 now d rawKey = Inr (k_user_id k)))"
  by (intro conjI allI impI authenticate_not_found)
    (auto simp add: authenticate_def split: option.splits)

theorem authenticate_outcomes_witness:
  "authenticate example_sha256 500 (keys_db [example_key]) ''ffl_01'' = Inr 1 \<and>
   authenticate example_sha256 2000 (keys_db [example_key]) ''ffl_01'' = Inl Expired \<and>
   authenticate example_sha256 500 (keys_db [example_key\<lparr>k_is_active := False\<rparr>]) ''ffl_01'' =
     Inl Revoked \<and>
   authenticate example_sha256 500 (keys_db [example_key]) ''ffl_11'' = Inl NotFound"
  using authenticate_outcomes [of example_sha256 500 "keys_db [example_key]" "''ffl_01''"]
    authenticate_outcomes [of example_sha256 2000 "keys_db [example_key]" "''ffl_01''"]
    authenticate_outcomes [of example_sha256 500 "keys_db [example_key\<lparr>k_is_active := False\<rparr>]"
      "''ffl_01''"]
    authenticate_outcomes [of example_sha256 500 "keys_db [example_key]" "''ffl_11''"]
  by (simp add: example_defs')

text \<open>
  The key a 201 response of \<open>POST /me/api-keys\<close> carries authenticates its owner
  until it expires, provided its digest is new to the table.
\<close>

lemma authenticate_created_key:
  assumes created: "status (fst (create_api_key sha256 add_days rb now new_id ip d uid req)) = 201"
    and fresh: "sha256 (''ffl_'' @ to_hex rb) \<notin> set (map key_hash (api_keys d))"
  shows "authenticate sha256 t (snd (create_api_key sha256 add_days rb now new_id ip d uid req))
           (''ffl_'' @ to_hex rb) =
         (case b_expiresInDays req of
            None \<Rightarrow> Inr uid
          | Some n \<Rightarrow>
              if n \<noteq> 0 \<and> (\<exists>e. add_days now n = Some e \<and> e < t) then Inl Expired
              else Inr uid)"
proof -
  define raw where "raw = ''ffl_'' @ to_hex rb"
  from fresh have none: "filter (\<lambda>k. key_hash k = sha256 raw) (api_keys d) = []"
    unfolding raw_def by (simp add: filter_empty_conv image_iff) metis
  from created obtain stored_name expires where
    expires: "(case b_expiresInDays req of
                 None \<Rightarrow> Some None
               | Some n \<Rightarrow> if n = 0 then Some None else map_option Some (add_days now n)) =
              Some expires"
    and stored:
    "api_keys (snd (create_api_key sha256 add_days rb now new_id ip d uid req)) =
       api_keys d @
       [\<lparr>k_id = new_id, k_user_id = uid, name = stored_name, key_hash = sha256 raw,
         permissions = (case b_permissions req of None \<Rightarrow> Some [] | Some ps \<Rightarrow> ps),
         last_used_at = None, expires_at = expires, k_is_active = True,
         k_created_at = now\<rparr>]"
    unfolding raw_def
    by (auto simp add: create_api_key_def Let_def log_action_def
        split: if_splits option.splits prod.splits)
  have "authenticate sha256 t (snd (create_api_key sha256 add_days rb now new_id ip d uid req)) raw =
         (case b_expiresInDays req of
            None \<Rightarrow> Inr uid
          | Some n \<Rightarrow>
              if n \<noteq> 0 \<and> (\<exists>e. add_days now n = Some e \<and> e < t) then Inl Expired
              else Inr uid)"
    unfolding authenticate_def stored using expires
    by (auto simp add: none split: option.splits if_splits)
  then show ?thesis
    unfolding raw_def .
qed

subsection \<open>TOTP codes\<close>

lemma digit_numeric: "digit n \<in> set ''0123456789''"
  unfolding digit_def by (rule nth_mem) simp

lemma numeric_codeAt: "numeric (codeAt hmac S c)"
  by (simp add: numeric_def codeAt_def Let_def digit_numeric del: set_simps)

lemma window_1: "[t - 1 .. t + 1] = [t - 1, t, t + 1]"
  by (simp add: upto_rec1)

lemma verifyCode_window_1:
  "verifyCode hmac now S code 1 \<longleftrightarrow>
     numeric code \<and>
     (codeAt hmac S (time_step now - 1) = code \<or> codeAt hmac S (time_step now) = code \<or>
      codeAt hmac S (time_step now + 1) = code)"
  by (simp add: verifyCode_def window_1)

lemma within_one: "\<bar>c - t\<bar> \<le> 1 \<longleftrightarrow> c = t - 1 \<or> c = t \<or> c = t + (1::int)"
  by arith

lemma verifyCode_iff:
  "verifyCode hmac now S (codeAt hmac S c) 1 \<longleftrightarrow>
     (\<exists>c'. \<bar>c' - time_step now\<bar> \<le> 1 \<and> codeAt hmac S c' = codeAt hmac S c)"
proof
  assume "verifyCode hmac now S (codeAt hmac S c) 1"
  then consider "codeAt hmac S (time_step now - 1) = codeAt hmac S c"
    | "codeAt hmac S (time_step now) = codeAt hmac S c"
    | "codeAt hmac S (time_step now + 1) = codeAt hmac S c"
    unfolding verifyCode_window_1 by blast
  then show "\<exists>c'. \<bar>c' - time_step now\<bar> \<le> 1 \<and> codeAt hmac S c' = codeAt hmac S c"
  proof cases
    case 1
    then show ?thesis by (intro exI [of _ "time_step now - 1"]) simp
  next
    case 2
    then show ?thesis by (intro exI [of _ "time_step now"]) simp
  next
    case 3
    then show ?thesis by (intro exI [of _ "time_step now + 1"]) simp
  qed
next
  assume "\<exists>c'. \<bar>c' - time_step now\<bar> \<le> 1 \<and> codeAt hmac S c' = codeAt hmac S c"
  then obtain c' where near: "\<bar>c' - time_step now\<bar> \<le> 1"
    and same: "codeAt hmac S c' = codeAt hmac S c"
    by blast
  from near have "c' = time_step now - 1 \<or> c' = time_step now \<or> c' = time_step now + 1"
    by (simp only: within_one)
  with same show "verifyCode hmac now S (codeAt hmac S c) 1"
    unfolding verifyCode_window_1 using numeric_codeAt [of hmac S c] by blast
qed

lemma verifyCode_accepts:
  "\<bar>c - time_step now\<bar> \<le> 1 \<longrightarrow> verifyCode hmac now S (codeAt hmac S c) 1"
  unfolding verifyCode_iff by blast

lemma codeAt_cong:
  "hmac S c mod 1000000 = hmac S c' mod 1000000 \<Longrightarrow> codeAt hmac S c = codeAt hmac S c'"
  by (simp add: codeAt_def)

lemma code_collision:
  "\<exists>i j. i < j \<and> codeAt hmac S (int (2 * i)) = codeAt hmac S (int (2 * j))"
proof -
  let ?f = "\<lambda>i::nat. hmac S (int (2 * i)) mod 1000000"
  let ?A = "{0..1000000::nat}"
  have "?f ` ?A \<subseteq> {..<1000000}" by auto
  then have "card (?f ` ?A) \<le> card {..<1000000::nat}" by (rule card_mono [rotated]) simp
  then have "card (?f ` ?A) < card ?A" by simp
  then have "\<not> inj_on ?f ?A" by (rule pigeonhole)
  then obtain i j where ij: "i \<noteq> j" "?f i = ?f j"
    unfolding inj_on_def by blast
  then have eq: "codeAt hmac S (int (2 * i)) = codeAt hmac S (int (2 * j))"
    by (intro codeAt_cong)
  show ?thesis
  proof (cases "i < j")
    case True
    with eq show ?thesis by blast
  next
    case False
    with ij have "j < i" by simp
    with eq show ?thesis by metis
  qed
qed

lemma accepted_outside_window:
  "\<exists>now c. 2 \<le> \<bar>c - time_step now\<bar> \<and> verifyCode hmac now S (codeAt hmac S c) 1"
proof -
  obtain i j where ij: "i < j" "codeAt hmac S (int (2 * i)) = codeAt hmac S (int (2 * j))"
    using code_collision by blast
  define t where "t = int (2 * i)"
  have step: "time_step (30 * t) = t" by (simp add: time_step_def)
  have far: "2 \<le> \<bar>int (2 * j) - time_step (30 * t)\<bar>"
    unfolding step using ij(1) by (simp add: t_def)
  have "codeAt hmac S t = codeAt hmac S (int (2 * j))"
    using ij(2) by (simp only: t_def)
  then have "verifyCode hmac (30 * t) S (codeAt hmac S (int (2 * j))) 1"
    unfolding verifyCode_iff step by (intro exI [of _ t]) simp
  with far show ?thesis by blast
qed

text \<open>
  C7, as stated: a code computed for a step two or more steps away from the current one
  is rejected. A code has six digits, so among the steps \<open>0, 2, 4, \<dots>\<close> two share a
  code, whatever the HMAC is; at the time of the first, the code of the second is
  accepted. No HMAC function makes the claim true.
\<close>

theorem no_hmac_rejects_all_codes_outside_window:
  "\<not> (\<exists>hmac S. \<forall>now c. 2 \<le> \<bar>c - time_step now\<bar> \<longrightarrow>
        \<not> verifyCode hmac now S (codeAt hmac S c) 1)"
  using accepted_outside_window by blast

text \<open>With an HMAC of period two, the code of the step after next is accepted.\<close>

lemma periodic_code_accepted_two_steps_late:
  "verifyCode (\<lambda>secret c. nat (c mod 2)) 3000 ''JBSWY3DPEHPK3PXP''
     (codeAt (\<lambda>secret c. nat (c mod 2)) ''JBSWY3DPEHPK3PXP'' (time_step 3000 + 2)) 1"
  unfolding verifyCode_window_1
  by (simp add: numeric_def codeAt_def time_step_def digit_def)

text \<open>
  C7, amended: with window 1, a code computed for the current step or a step adjacent to
  it is accepted, and a code computed for any step is accepted exactly when it is the
  code of one of those three steps; a code for a step two or more away is rejected unless
  it coincides with one of them.
\<close>

theorem verifyCode_window:
  "(\<bar>c - time_step now\<bar> \<le> 1 \<longrightarrow> verifyCode hmac now S (codeAt hmac S c) 1) \<and>
   (verifyCode hmac now S (codeAt hmac S c) 1 \<longleftrightarrow>
      (\<exists>c'. \<bar>c' - time_step now\<bar> \<le> 1 \<and> codeAt hmac S c' = codeAt hmac S c))"
  by (intro conjI) (rule verifyCode_accepts verifyCode_iff)+

theorem verifyCode_window_witness:
  "codeAt example_hmac ''JBSWY3DPEHPK3PXP'' 101 = ''000723'' \<and>
   verifyCode example_hmac 3000 ''JBSWY3DPEHPK3PXP'' ''000723'' 1 \<and>
   codeAt example_hmac ''JBSWY3DPEHPK3PXP'' 102 = ''000730'' \<and>
   \<not> verifyCode example_hmac 3000 ''JBSWY3DPEHPK3PXP'' ''000730'' 1"
proof -
  have code: "codeAt example_hmac ''JBSWY3DPEHPK3PXP'' 101 = ''000723''"
    by (simp add: codeAt_def example_hmac_def digit_def)
  have "\<bar>101 - time_step 3000\<bar> \<le> 1"
    by (simp add: time_step_def)
  with verifyCode_window [of 101 3000 example_hmac "''JBSWY3DPEHPK3PXP''"]
  have "verifyCode example_hmac 3000 ''JBSWY3DPEHPK3PXP''
      (codeAt example_hmac ''JBSWY3DPEHPK3PXP'' 101) 1"
    by blast
  then have accepted: "verifyCode example_hmac 3000 ''JBSWY3DPEHPK3PXP'' ''000723'' 1"
    by (simp only: code)
  have code': "codeAt example_hmac ''JBSWY3DPEHPK3PXP'' 102 = ''000730''"
    by (simp add: codeAt_def example_hmac_def digit_def)
  have rejected: "\<not> verifyCode example_hmac 3000 ''JBSWY3DPEHPK3PXP'' ''000730'' 1"
    unfolding verifyCode_window_1
    by (simp add: codeAt_def example_hmac_def time_step_def digit_def)
  from code accepted code' rejected show ?thesis by blast
qed

end
